theory Spec2Isabelle
  imports Main
begin

section \<open>Strings and the string primitives of the source\<close>

text \<open>
  A Python \<open>str\<close> is modelled as a \<open>string\<close> (a list of \<open>char\<close>); a \<open>char\<close> stands for a
  code point below 256. On that range the character classes of the source are:
  \<open>\d\<close> is \<open>0..9\<close>, \<open>\s\<close> (and the set removed by \<open>str.strip()\<close>) is the twelve code points
  of \<open>is_space\<close>, and \<open>.\<close> is every character but the line feed.
\<close>

definition is_digit :: "char \<Rightarrow> bool" where
  "is_digit c = (c \<in> set ''0123456789'')"

definition is_space :: "char \<Rightarrow> bool" where
  "is_space c = (c \<in> set [CHR 0x09, CHR 0x0A, CHR 0x0B, CHR 0x0C, CHR 0x0D,
                            CHR 0x1C, CHR 0x1D, CHR 0x1E, CHR 0x1F, CHR 0x20,
                            CHR 0x85, CHR 0xA0])"

definition is_digit_or_semi :: "char \<Rightarrow> bool" where
  "is_digit_or_semi c = (is_digit c \<or> c = CHR '';'')"

definition newline :: char where
  "newline = CHR 0x0A"

text \<open>\<open>s.startswith(p)\<close>.\<close>

fun startswith :: "string \<Rightarrow> string \<Rightarrow> bool" where
  "startswith s [] = True"
| "startswith [] (p # ps) = False"
| "startswith (c # cs) (p # ps) = (c = p \<and> startswith cs ps)"

text \<open>\<open>p in s\<close> for strings: \<open>p\<close> occurs in \<open>s\<close> as a substring.\<close>

fun contains :: "string \<Rightarrow> string \<Rightarrow> bool" where
  "contains [] p = (p = [])"
| "contains (c # cs) p = (startswith (c # cs) p \<or> contains cs p)"

text \<open>\<open>s.split(sep)\<close> with a one-character separator: never the empty list.\<close>

fun split_on :: "char \<Rightarrow> string \<Rightarrow> string list" where
  "split_on sep [] = [ [] ]"
| "split_on sep (c # cs) =
     (if c = sep then [] # split_on sep cs
      else (case split_on sep cs of
              [] \<Rightarrow> [ [c] ]
            | w # ws \<Rightarrow> (c # w) # ws))"

text \<open>\<open>s.strip()\<close>, \<open>s.strip('.')\<close> and \<open>s.lstrip('?')\<close> remove every leading (and trailing)
  character of the given set, not only one.\<close>

definition strip_chars :: "(char \<Rightarrow> bool) \<Rightarrow> string \<Rightarrow> string" where
  "strip_chars p s = rev (dropWhile p (rev (dropWhile p s)))"

definition strip :: "string \<Rightarrow> string" where
  "strip s = strip_chars is_space s"

definition strip_dots :: "string \<Rightarrow> string" where
  "strip_dots s = strip_chars (\<lambda>c. c = CHR ''.'') s"

text \<open>\<open>str(n)\<close> for a non-negative integer, as used by the f-string \<open>f"clone{idx}"\<close>.\<close>

definition digit_char :: "nat \<Rightarrow> char" where
  "digit_char d = ''0123456789'' ! d"

fun str_of_nat :: "nat \<Rightarrow> string" where
  "str_of_nat n = (if n < 10 then [digit_char n]
                   else str_of_nat (n div 10) @ [digit_char (n mod 10)])"

declare str_of_nat.simps [simp del]

text \<open>\<open>", ".join(xs)\<close>.\<close>

fun join_comma :: "string list \<Rightarrow> string" where
  "join_comma [] = []"
| "join_comma [x] = x"
| "join_comma (x # y # ys) = x @ '', '' @ join_comma (y # ys)"

section \<open>Exceptions\<close>

text \<open>The exceptions the source can raise. \<open>ValueError\<close> carries its message,
  \<open>UnboundLocalError\<close> the name of the variable, \<open>KeyError\<close> the key.\<close>

datatype py_error = IndexError | ValueError string | UnboundLocalError string | KeyError string

text \<open>\<open>repr(s)\<close> of a \<open>str\<close>: double quotes when the string holds a single quote and no
  double quote, single quotes otherwise; the backslash and the chosen quote are escaped
  with a backslash, tab, line feed and carriage return are written as a backslash and
  \<open>t\<close>, \<open>n\<close>, \<open>r\<close>, and the other characters that are not printable are written as a
  backslash, \<open>x\<close> and two lower-case hexadecimal digits.\<close>

definition single_quote :: char where
  "single_quote = CHR 0x27"

definition double_quote :: char where
  "double_quote = CHR 0x22"

definition backslash :: char where
  "backslash = CHR 0x5C"

definition hex_digit :: "nat \<Rightarrow> char" where
  "hex_digit d = ''0123456789abcdef'' ! d"

definition is_printable :: "char \<Rightarrow> bool" where
  "is_printable c =
     (let n = (of_char c :: nat) in (32 \<le> n \<and> n < 127) \<or> (161 \<le> n \<and> n \<noteq> 173))"

definition repr_char :: "char \<Rightarrow> char \<Rightarrow> string" where
  "repr_char quote c =
     (if c = quote \<or> c = backslash then [backslash, c]
      else if c = CHR 0x09 then [backslash, CHR ''t'']
      else if c = CHR 0x0A then [backslash, CHR ''n'']
      else if c = CHR 0x0D then [backslash, CHR ''r'']
      else if is_printable c then [c]
      else [backslash, CHR ''x'', hex_digit (of_char c div 16), hex_digit (of_char c mod 16)])"

definition py_repr :: "string \<Rightarrow> string" where
  "py_repr s =
     (let quote = (if single_quote \<in> set s \<and> double_quote \<notin> set s
                   then double_quote else single_quote)
      in [quote] @ concat (map (repr_char quote) s) @ [quote])"

text \<open>\<open>str(e)\<close>, as interpolated in the message of \<open>analyser_formule\<close>, with the texts of
  CPython 3.11 and later: the message of an \<open>IndexError\<close> of a list and of a \<open>ValueError\<close>,
  the text naming the unbound local variable, and the \<open>repr\<close> of the key of a
  \<open>KeyError\<close>.\<close>

fun error_text :: "py_error \<Rightarrow> string" where
  "error_text IndexError = ''list index out of range''"
| "error_text (ValueError msg) = msg"
| "error_text (UnboundLocalError v) =
     ''cannot access local variable '' @ [single_quote] @ v @ [single_quote]
       @ '' where it is not associated with a value''"
| "error_text (KeyError k) = py_repr k"

text \<open>\<open>int(s)\<close> on a string of decimal digits. The empty string raises \<open>ValueError\<close>, and so
  does a string of more than 4300 digits (the default limit of CPython 3.11 and later,
  which counts leading zeros too); the value is unbounded otherwise.\<close>

definition digit_val :: "char \<Rightarrow> nat" where
  "digit_val c = of_char c - 48"

definition max_str_digits :: nat where
  "max_str_digits = 4300"

definition py_int :: "string \<Rightarrow> py_error + nat" where
  "py_int s =
     (if s = [] then
        Inl (ValueError (''invalid literal for int() with base 10: '' @ py_repr s))
      else if length s > max_str_digits then
        Inl (ValueError
              (''Exceeds the limit (4300 digits) for integer string conversion: value has ''
               @ str_of_nat (length s)
               @ '' digits; use sys.set_int_max_str_digits() to increase the limit''))
      else Inr (foldl (\<lambda>acc c. 10 * acc + digit_val c) 0 s))"

section \<open>Dictionaries in insertion order\<close>

text \<open>A \<open>dict\<close> keeps its keys in the order of their first insertion; it is an association
  list with distinct keys.\<close>

text \<open>\<open>d.setdefault(k, []).append(v)\<close>.\<close>

fun setdefault_append :: "'k \<Rightarrow> 'v \<Rightarrow> ('k \<times> 'v list) list \<Rightarrow> ('k \<times> 'v list) list" where
  "setdefault_append k v [] = [(k, [v])]"
| "setdefault_append k v ((k', vs) # m) =
     (if k = k' then (k', vs @ [v]) # m else (k', vs) # setdefault_append k v m)"

text \<open>\<open>d.setdefault(k, v)\<close>: stores only when the key is absent.\<close>

fun setdefault :: "'k \<Rightarrow> 'v \<Rightarrow> ('k \<times> 'v) list \<Rightarrow> ('k \<times> 'v) list" where
  "setdefault k v [] = [(k, v)]"
| "setdefault k v ((k', v') # m) =
     (if k = k' then (k', v') # m else (k', v') # setdefault k v m)"

text \<open>\<open>d[k] = v\<close>.\<close>

fun dict_set :: "'k \<Rightarrow> 'v \<Rightarrow> ('k \<times> 'v) list \<Rightarrow> ('k \<times> 'v) list" where
  "dict_set k v [] = [(k, v)]"
| "dict_set k v ((k', v') # m) =
     (if k = k' then (k', v) # m else (k', v') # dict_set k v m)"

text \<open>\<open>d[k]\<close> for a dictionary keyed by strings: raises \<open>KeyError\<close> when the key is absent.\<close>

definition dict_get :: "(string \<times> 'v) list \<Rightarrow> string \<Rightarrow> py_error + 'v" where
  "dict_get m k = (case map_of m k of None \<Rightarrow> Inl (KeyError k) | Some v \<Rightarrow> Inr v)"

text \<open>\<open>Counter(xs)\<close>: the number of occurrences of every element, keyed in the order of
  first occurrence.\<close>

fun counter_add :: "'k \<Rightarrow> ('k \<times> nat) list \<Rightarrow> ('k \<times> nat) list" where
  "counter_add k [] = [(k, 1)]"
| "counter_add k ((k', n) # m) =
     (if k = k' then (k', Suc n) # m else (k', n) # counter_add k m)"

definition Counter :: "'k list \<Rightarrow> ('k \<times> nat) list" where
  "Counter xs = foldl (\<lambda>m x. counter_add x m) [] xs"

text \<open>\<open>c[k]\<close> on a \<open>Counter\<close>: zero for an absent key.\<close>

definition counter_get :: "('k \<times> nat) list \<Rightarrow> 'k \<Rightarrow> nat" where
  "counter_get m k = (case map_of m k of None \<Rightarrow> 0 | Some n \<Rightarrow> n)"

section \<open>Parsing the karyotype formula\<close>

text \<open>\<open>re.sub(r"\s+", "", s)\<close>.\<close>

definition remove_whitespace :: "string \<Rightarrow> string" where
  "remove_whitespace s = filter (\<lambda>c. \<not> is_space c) s"

text \<open>\<open>re.sub(r"\[.*?\]", "", c)\<close>: from an opening bracket, the shortest stretch without a
  line feed that reaches a closing bracket is removed; an opening bracket with no such
  closing bracket stays.\<close>

fun find_close :: "string \<Rightarrow> nat option" where
  "find_close [] = None"
| "find_close (c # cs) =
     (if c = CHR '']'' then Some 0
      else if c = newline then None
      else map_option Suc (find_close cs))"

fun remove_brackets :: "string \<Rightarrow> string" where
  "remove_brackets [] = []"
| "remove_brackets (c # cs) =
     (if c = CHR ''[''
      then (case find_close cs of
              Some n \<Rightarrow> remove_brackets (drop (Suc n) cs)
            | None \<Rightarrow> c # remove_brackets cs)
      else c # remove_brackets cs)"

text \<open>The locals of \<open>parse_caryotype\<close>. The variable \<open>pl\<close> is assigned inside the loop only,
  so it is unbound until the first clone with 92 or 69 chromosomes and keeps its value
  afterwards.\<close>

record parse_state =
  anomalies :: "string list"
  clone_map :: "(string \<times> string list) list"
  pl :: "string option"

definition clone_label :: "nat \<Rightarrow> string" where
  "clone_label idx = ''clone'' @ str_of_nat idx"

text \<open>The body of the \<open>try\<close> block: the state it leaves behind and the exception raised, if
  any.\<close>

definition ploidy_try :: "nat \<Rightarrow> string list \<Rightarrow> parse_state \<Rightarrow> parse_state \<times> py_error option" where
  "ploidy_try idx parts st =
     (case parts of
        [] \<Rightarrow> (st, Some IndexError)
      | p0 # _ \<Rightarrow>
         (case py_int (filter is_digit p0) of
            Inl e \<Rightarrow> (st, Some e)
          | Inr tot \<Rightarrow>
             if tot \<noteq> 46 then
               let st1 = (if tot = 92 then st\<lparr>pl := Some ''Tetraploidy''\<rparr>
                          else if tot = 69 then st\<lparr>pl := Some ''Triploidy''\<rparr>
                          else st)
               in (case pl st1 of
                     None \<Rightarrow> (st1, Some (UnboundLocalError ''pl''))
                   | Some p \<Rightarrow>
                       (st1\<lparr>anomalies := anomalies st1 @ [p],
                            clone_map := setdefault_append p (clone_label idx) (clone_map st1)\<rparr>,
                        None))
             else (st, None)))"

text \<open>\<open>for an in parts[2:]\<close>.\<close>

fun add_anomalies :: "nat \<Rightarrow> string list \<Rightarrow> parse_state \<Rightarrow> parse_state" where
  "add_anomalies idx [] st = st"
| "add_anomalies idx (an # ans) st =
     add_anomalies idx ans
       (st\<lparr>anomalies := anomalies st @ [an],
           clone_map := setdefault_append an (clone_label idx) (clone_map st)\<rparr>)"

definition clone_parts :: "string \<Rightarrow> string list" where
  "clone_parts clone =
     map (\<lambda>p. strip_dots (strip p)) (filter (\<lambda>p. strip p \<noteq> []) (split_on CHR '','' clone))"

text \<open>One turn of the loop over the clones; \<open>except Exception: pass\<close> goes on from the state
  the \<open>try\<close> block left.\<close>

definition parse_clone :: "nat \<Rightarrow> string \<Rightarrow> parse_state \<Rightarrow> parse_state" where
  "parse_clone idx clone st =
     (let parts = clone_parts clone;
          st1 = fst (ploidy_try idx parts st)
      in add_anomalies idx (drop 2 parts) st1)"

fun parse_clones :: "nat \<Rightarrow> string list \<Rightarrow> parse_state \<Rightarrow> parse_state" where
  "parse_clones idx [] st = st"
| "parse_clones idx (clone # clones) st = parse_clones (Suc idx) clones (parse_clone idx clone st)"

definition clones_of :: "string \<Rightarrow> string list" where
  "clones_of chaine_iscn = map remove_brackets (split_on CHR ''/'' (remove_whitespace chaine_iscn))"

definition parse_caryotype :: "string \<Rightarrow> string list \<times> (string \<times> string list) list" where
  "parse_caryotype chaine_iscn =
     (let st = parse_clones 1 (clones_of chaine_iscn) \<lparr>anomalies = [], clone_map = [], pl = None\<rparr>
      in (anomalies st, clone_map st))"

section \<open>Chromosome references of one anomaly\<close>

text \<open>\<open>re.finditer\<close>: the matcher is tried at every position from the left; it returns the
  value of the match and the number of characters it consumed (at least one for every
  pattern of the source), and the search goes on behind the match.\<close>

fun finditer :: "(string \<Rightarrow> ('a \<times> nat) option) \<Rightarrow> string \<Rightarrow> 'a list" where
  "finditer m [] = []"
| "finditer m (c # cs) =
     (case m (c # cs) of
        Some (v, n) \<Rightarrow> v # finditer m (drop (n - 1) cs)
      | None \<Rightarrow> finditer m cs)"

text \<open>The pattern \<open>(?:der|dic|del|dup|ins|t|i|ider|idic|r)\(([0-9;]+)\<close> at the start of a
  string: the first alternative, in the order of the pattern, that is followed by an opening
  parenthesis and at least one digit or semicolon; group 1 is the longest run of digits and
  semicolons there.\<close>

definition chromosome_keywords :: "string list" where
  "chromosome_keywords =
     [''der'', ''dic'', ''del'', ''dup'', ''ins'', ''t'', ''i'', ''ider'', ''idic'', ''r'']"

definition keyword_group :: "string \<Rightarrow> string \<Rightarrow> string" where
  "keyword_group s k = takeWhile is_digit_or_semi (drop (length k + 1) s)"

definition keyword_matches :: "string \<Rightarrow> string \<Rightarrow> bool" where
  "keyword_matches s k = (startswith s (k @ ''('') \<and> keyword_group s k \<noteq> [])"

definition chromosome_match :: "string \<Rightarrow> (string \<times> nat) option" where
  "chromosome_match s =
     (case find (keyword_matches s) chromosome_keywords of
        None \<Rightarrow> None
      | Some k \<Rightarrow> Some (keyword_group s k, length k + 1 + length (keyword_group s k)))"

text \<open>The set \<open>nums\<close> of \<open>get_chromosomes\<close>, in the order its elements are added.\<close>

definition chromosome_list :: "string \<Rightarrow> string list" where
  "chromosome_list anom = concat (map (split_on CHR '';'') (finditer chromosome_match anom))"

definition get_chromosomes :: "string \<Rightarrow> string set" where
  "get_chromosomes anom = set (chromosome_list anom)"

section \<open>Predicates on one anomaly\<close>

definition is_single_chr_deseq :: "string \<Rightarrow> nat \<Rightarrow> bool" where
  "is_single_chr_deseq anom count =
     (if startswith anom ''+'' \<and> count > 1 then True
      else if startswith anom ''trp'' then True
      else if startswith anom ''ider'' then True
      else False)"

text \<open>The part \<open>\d+(?:;\d+)+\)\(\<close> of the two balanced patterns. The characters it consumes
  before the closing parenthesis are digits and semicolons and the closing parenthesis is
  neither, so they are the longest run of digits and semicolons; the run is matched when
  splitting it at the semicolons gives at least two fields, none of them empty. The result
  is what follows \<open>)(\<close>.\<close>

definition number_list :: "string \<Rightarrow> string option" where
  "number_list s =
     (let run = takeWhile is_digit_or_semi s;
          rest = dropWhile is_digit_or_semi s;
          fields = split_on CHR '';'' run
      in if length fields \<ge> 2 \<and> [] \<notin> set fields \<and> startswith rest '')(''
         then Some (drop 2 rest) else None)"

text \<open>The part \<open>.+\)$\<close>: \<open>$\<close> matches at the end of the string and before a line feed that
  ends the string; before the last closing parenthesis there is at least one character, and
  no line feed.\<close>

definition bands_to_end :: "string \<Rightarrow> bool" where
  "bands_to_end s =
     (let t = (if s \<noteq> [] \<and> last s = newline then butlast s else s)
      in t \<noteq> [] \<and> last t = CHR '')'' \<and> butlast t \<noteq> [] \<and> newline \<notin> set (butlast t))"

text \<open>\<open>re.match(r'^KW\(\d+(?:;\d+)+\)\(.+\)$', anom)\<close> for the keyword \<open>KW\<close>.\<close>

definition balanced_shape :: "string \<Rightarrow> string \<Rightarrow> bool" where
  "balanced_shape kw anom =
     (startswith anom (kw @ ''('') \<and>
      (case number_list (drop (length kw + 1) anom) of
         None \<Rightarrow> False
       | Some bands \<Rightarrow> bands_to_end bands))"

definition is_balanced_translocation :: "string \<Rightarrow> bool" where
  "is_balanced_translocation anom =
     (balanced_shape ''t'' anom \<and> \<not> contains anom ''der'' \<and> \<not> contains anom ''+''
      \<and> \<not> contains anom ''-'')"

definition is_unbalanced_translocation :: "string \<Rightarrow> bool" where
  "is_unbalanced_translocation anom =
     (if (contains anom ''der'' \<or> contains anom ''dic'') \<and> contains anom ''t('' then True
      else if contains anom ''t('' \<and> \<not> is_balanced_translocation anom then True
      else False)"

definition is_balanced_insertion :: "string \<Rightarrow> bool" where
  "is_balanced_insertion anom =
     (balanced_shape ''ins'' anom \<and> \<not> contains anom ''der'' \<and> \<not> contains anom ''+''
      \<and> \<not> contains anom ''-'')"

definition is_complex_multichr_deseq :: "string \<Rightarrow> bool" where
  "is_complex_multichr_deseq anom =
     (if card (get_chromosomes anom) \<le> 1 then False
      else if startswith anom ''der'' \<or> startswith anom ''dic'' \<or> startswith anom ''r(''
        then True
      else if contains anom ''ins('' \<and> \<not> is_balanced_insertion anom then True
      else if contains anom ''t('' \<and> \<not> is_balanced_translocation anom then True
      else False)"

section \<open>The type of an anomaly\<close>

text \<open>The labels returned by \<open>type_anomalie\<close>; a gain and a loss carry the digits of the
  anomaly (\<open>re.sub(r"\D", "", anom)\<close>).\<close>

datatype anomaly_type =
    Multichromosomique_desequilibree
  | Translocation_equilibree
  | Translocation_desequilibree
  | Insertion_equilibree
  | Ploidy
  | Pleiade_chromosomique
  | Chromosome_marqueur
  | Double_minutes
  | Homogeneously_staining_region
  | Anneau
  | Chromosome_derive
  | Insertion
  | Translocation
  | Gain_chr string
  | Perte_chr string
  | Duplication
  | Deletion
  | Triplication_Quadruplication
  | Chromosome_dicentrique
  | Isodicentric_chromosome
  | Isoderivative_chromosome
  | Isochromosome
  | Autre

definition e_acute :: char where
  "e_acute = CHR 0xE9"

text \<open>The string each label stands for.\<close>

fun type_text :: "anomaly_type \<Rightarrow> string" where
  "type_text Multichromosomique_desequilibree =
     ''Multichromosomique d'' @ [e_acute] @ ''s'' @ [e_acute] @ ''quilibr'' @ [e_acute] @ ''e''"
| "type_text Translocation_equilibree =
     ''Translocation '' @ [e_acute] @ ''quilibr'' @ [e_acute] @ ''e''"
| "type_text Translocation_desequilibree =
     ''Translocation d'' @ [e_acute] @ ''s'' @ [e_acute] @ ''quilibr'' @ [e_acute] @ ''e''"
| "type_text Insertion_equilibree = ''Insertion '' @ [e_acute] @ ''quilibr'' @ [e_acute] @ ''e''"
| "type_text Ploidy = ''Ploidy''"
| "type_text Pleiade_chromosomique = ''Pl'' @ [e_acute] @ ''iade chromosomique''"
| "type_text Chromosome_marqueur = ''Chromosome marqueur''"
| "type_text Double_minutes = ''Double minutes''"
| "type_text Homogeneously_staining_region = ''Homogeneously staining region''"
| "type_text Anneau = ''Anneau''"
| "type_text Chromosome_derive = ''Chromosome d'' @ [e_acute] @ ''riv'' @ [e_acute]"
| "type_text Insertion = ''Insertion''"
| "type_text Translocation = ''Translocation''"
| "type_text (Gain_chr n) = ''Gain chr'' @ n"
| "type_text (Perte_chr n) = ''Perte chr'' @ n"
| "type_text Duplication = ''Duplication''"
| "type_text Deletion = ''D'' @ [e_acute] @ ''l'' @ [e_acute] @ ''tion''"
| "type_text Triplication_Quadruplication = ''Triplication/Quadruplication''"
| "type_text Chromosome_dicentrique = ''Chromosome dicentrique''"
| "type_text Isodicentric_chromosome = ''Isodicentric chromosome''"
| "type_text Isoderivative_chromosome = ''Isoderivative chromosome''"
| "type_text Isochromosome = ''Isochromosome''"
| "type_text Autre = ''Autre''"

definition type_anomalie :: "string \<Rightarrow> anomaly_type" where
  "type_anomalie anom =
     (if is_complex_multichr_deseq anom then Multichromosomique_desequilibree
      else if is_balanced_translocation anom then Translocation_equilibree
      else if is_unbalanced_translocation anom then Translocation_desequilibree
      else if is_balanced_insertion anom then Insertion_equilibree
      else if anom = ''<2n>'' then Ploidy
      else if contains anom ''~'' then Pleiade_chromosomique
      else if anom = ''+mar'' then Chromosome_marqueur
      else if contains anom ''dmin'' then Double_minutes
      else if startswith anom ''hsr'' then Homogeneously_staining_region
      else if startswith anom ''r('' then Anneau
      else if startswith anom ''der'' then Chromosome_derive
      else if startswith anom ''ins'' then Insertion
      else if startswith anom ''t('' then Translocation
      else if startswith anom ''+'' then Gain_chr (filter is_digit anom)
      else if startswith anom ''-'' then Perte_chr (filter is_digit anom)
      else if startswith anom ''dup'' then Duplication
      else if startswith anom ''del'' then Deletion
      else if startswith anom ''trp'' then Triplication_Quadruplication
      else if startswith anom ''dic'' then Chromosome_dicentrique
      else if startswith anom ''idic'' then Isodicentric_chromosome
      else if startswith anom ''ider'' then Isoderivative_chromosome
      else if startswith anom ''i('' \<or> contains anom ''iso'' then Isochromosome
      else Autre)"

section \<open>Implicit anomalies\<close>

definition normalize_anomaly :: "string \<Rightarrow> string" where
  "normalize_anomaly anom = dropWhile (\<lambda>c. c = CHR ''?'') anom"

datatype reason = Derive_implicite | Gain_perte_implicite

fun reason_text :: "reason \<Rightarrow> string" where
  "reason_text Derive_implicite = ''D'' @ [e_acute] @ ''riv'' @ [e_acute] @ '' implicite''"
| "reason_text Gain_perte_implicite = ''Gain/perte implicite''"

text \<open>\<open>norm_to_orig\<close>: the first original form of every normalized anomaly.\<close>

definition norm_to_orig_of :: "string list \<Rightarrow> (string \<times> string) list" where
  "norm_to_orig_of anoms = foldl (\<lambda>m a. setdefault (normalize_anomaly a) a m) [] anoms"

text \<open>The comparison of \<open>str\<close> values used by \<open>sorted\<close>: lexicographic on the code points.\<close>

fun str_less :: "string \<Rightarrow> string \<Rightarrow> bool" where
  "str_less [] [] = False"
| "str_less [] (y # ys) = True"
| "str_less (x # xs) [] = False"
| "str_less (x # xs) (y # ys) =
     ((of_char x :: nat) < of_char y \<or> (x = y \<and> str_less xs ys))"

definition sorted_pair :: "string \<Rightarrow> string \<Rightarrow> string \<times> string" where
  "sorted_pair A B = (if str_less B A then (B, A) else (A, B))"

text \<open>The pattern \<open>t\((\d+);(\d+)\)\<close> at the start of a string: groups 1 and 2.\<close>

definition t_pair_at :: "string \<Rightarrow> (string \<times> string) option" where
  "t_pair_at s =
     (if startswith s ''t('' then
        (let r1 = drop 2 s;
             A = takeWhile is_digit r1;
             r2 = dropWhile is_digit r1;
             B = takeWhile is_digit (drop 1 r2);
             r3 = dropWhile is_digit (drop 1 r2)
         in if A \<noteq> [] \<and> startswith r2 '';'' \<and> B \<noteq> [] \<and> startswith r3 '')''
            then Some (A, B) else None)
      else None)"

text \<open>The part \<open>.*t\((\d+);(\d+)\)\<close>: the greedy \<open>.*\<close> gives the last position, reached
  without crossing a line feed, where the rest of the pattern matches.\<close>

fun last_t_pair :: "string \<Rightarrow> (string \<times> string) option" where
  "last_t_pair [] = None"
| "last_t_pair (c # cs) =
     (case (if c = newline then None else last_t_pair cs) of
        Some r \<Rightarrow> Some r
      | None \<Rightarrow> t_pair_at (c # cs))"

text \<open>\<open>re.match(r"(?:der|dic)\((\d+)\).*t\((\d+);(\d+)\)", an)\<close>: the groups \<open>A\<close> and \<open>B\<close>.\<close>

definition derivative_event :: "string \<Rightarrow> (string \<times> string) option" where
  "derivative_event an =
     (if startswith an ''der('' \<or> startswith an ''dic('' then
        (let r1 = drop 4 an;
             r2 = dropWhile is_digit r1
         in if takeWhile is_digit r1 \<noteq> [] \<and> startswith r2 '')''
            then last_t_pair (drop 1 r2) else None)
      else None)"

definition t_events_of :: "string list \<Rightarrow> ((string \<times> string) \<times> string list) list" where
  "t_events_of norms =
     foldl (\<lambda>ev an. case derivative_event an of
                       None \<Rightarrow> ev
                     | Some (A, B) \<Rightarrow> setdefault_append (sorted_pair A B) an ev) [] norms"

text \<open>\<open>re.search(r"add|del|dup", d)\<close>.\<close>

definition is_explicit :: "string \<Rightarrow> bool" where
  "is_explicit d = (contains d ''add'' \<or> contains d ''del'' \<or> contains d ''dup'')"

type_synonym implicit_dict = "(string \<times> reason \<times> string) list"

text \<open>The loop over \<open>t_events.values()\<close>; \<open>norm_to_orig[explicits[0]]\<close> raises \<open>KeyError\<close> on an
  absent key.\<close>

fun implicit_derivatives ::
  "(string \<times> string) list \<Rightarrow> string list list \<Rightarrow> implicit_dict \<Rightarrow> py_error + implicit_dict" where
  "implicit_derivatives n2o [] implicit = Inr implicit"
| "implicit_derivatives n2o (ders # groups) implicit =
     (case filter is_explicit ders of
        [] \<Rightarrow> implicit_derivatives n2o groups implicit
      | e0 # es \<Rightarrow>
         (case dict_get n2o e0 of
            Inl err \<Rightarrow> Inl err
          | Inr ref \<Rightarrow>
             implicit_derivatives n2o groups
               (foldl (\<lambda>imp d. if d \<notin> set (e0 # es)
                                then dict_set d (Derive_implicite, ref) imp else imp)
                      implicit ders)))"

text \<open>The pattern \<open>t\(([0-9;]+)\)\<close> at the start of a string and
  \<open>re.match(r"^(?:der|dic)\(([0-9;]+)\)", an)\<close>.\<close>

definition t_list_at :: "string \<Rightarrow> (string \<times> nat) option" where
  "t_list_at s =
     (if startswith s ''t('' then
        (let g = takeWhile is_digit_or_semi (drop 2 s)
         in if g \<noteq> [] \<and> startswith (dropWhile is_digit_or_semi (drop 2 s)) '')''
            then Some (g, length g + 3) else None)
      else None)"

definition derivative_head :: "string \<Rightarrow> string option" where
  "derivative_head an =
     (if startswith an ''der('' \<or> startswith an ''dic('' then
        (let g = takeWhile is_digit_or_semi (drop 4 an)
         in if g \<noteq> [] \<and> startswith (dropWhile is_digit_or_semi (drop 4 an)) '')''
            then Some g else None)
      else None)"

text \<open>The set \<open>chrs\<close> of one derivative, without duplicates. The order in which Python walks a
  set only decides the order of the keys of \<open>multi_der\<close>, which is never read.\<close>

definition derivative_chrs :: "string \<Rightarrow> string list option" where
  "derivative_chrs an =
     (if startswith an ''der'' \<or> startswith an ''dic'' then
        (case derivative_head an of
           None \<Rightarrow> None
         | Some g \<Rightarrow>
            Some (remdups (split_on CHR '';'' g
                           @ concat (map (split_on CHR '';'') (finditer t_list_at an)))))
      else None)"

definition multi_der_of :: "string list \<Rightarrow> (string \<times> string list) list" where
  "multi_der_of norms =
     foldl (\<lambda>md an. case derivative_chrs an of
                       None \<Rightarrow> md
                     | Some chrs \<Rightarrow>
                        if length chrs > 1
                        then foldl (\<lambda>md' c. setdefault_append c an md') md chrs
                        else md) [] norms"

text \<open>The last loop; \<open>multi_der[num][0]\<close> raises \<open>IndexError\<close> on an empty list.\<close>

fun implicit_gains ::
  "(string \<times> string) list \<Rightarrow> (string \<times> string list) list \<Rightarrow> string list \<Rightarrow> implicit_dict
     \<Rightarrow> py_error + implicit_dict" where
  "implicit_gains n2o multi_der [] implicit = Inr implicit"
| "implicit_gains n2o multi_der (an # ans) implicit =
     (if startswith an ''+'' \<or> startswith an ''-'' then
        (case map_of multi_der (filter is_digit an) of
           None \<Rightarrow> implicit_gains n2o multi_der ans implicit
         | Some [] \<Rightarrow> Inl IndexError
         | Some (ref_norm # _) \<Rightarrow>
            (let ref = (case map_of n2o ref_norm of None \<Rightarrow> ref_norm | Some orig \<Rightarrow> orig)
             in implicit_gains n2o multi_der ans
                  (dict_set an (Gain_perte_implicite, ref) implicit)))
      else implicit_gains n2o multi_der ans implicit)"

definition detect_implicit_anomalies :: "string list \<Rightarrow> py_error + implicit_dict" where
  "detect_implicit_anomalies anoms =
     (let norm_counts = Counter (map normalize_anomaly anoms);
          norm_to_orig = norm_to_orig_of anoms;
          norms = map fst norm_counts
      in case implicit_derivatives norm_to_orig (map snd (t_events_of norms)) [] of
           Inl err \<Rightarrow> Inl err
         | Inr implicit \<Rightarrow> implicit_gains norm_to_orig (multi_der_of norms) norms implicit)"

section \<open>Scores\<close>

datatype explication =
    Anomalie_constitutionnelle
  | Implicite reason string
  | Desequilibre_unichromosomique
  | Desequilibre_multichromosomique_complexe
  | Translocation_desequilibree_2_points
  | Anomalie_standard
  | Chromosome_dicentrique_2_points

fun explication_text :: "explication \<Rightarrow> string" where
  "explication_text Anomalie_constitutionnelle = ''Anomalie constitutionnelle (0 point)''"
| "explication_text (Implicite r ref) = reason_text r @ '' ('' @ ref @ '') (0 point)''"
| "explication_text Desequilibre_unichromosomique =
     ''D'' @ [e_acute] @ ''s'' @ [e_acute] @ ''quilibre unichromosomique (2 points)''"
| "explication_text Desequilibre_multichromosomique_complexe =
     ''D'' @ [e_acute] @ ''s'' @ [e_acute] @ ''quilibre multichromosomique complexe (2 points)''"
| "explication_text Translocation_desequilibree_2_points =
     ''Translocation d'' @ [e_acute] @ ''s'' @ [e_acute] @ ''quilibr'' @ [e_acute]
       @ ''e (2 points)''"
| "explication_text Anomalie_standard = ''Anomalie standard (1 point)''"
| "explication_text Chromosome_dicentrique_2_points = ''Chromosome dicentrique (2 points)''"

text \<open>A row of the data frame. The last row is \<open>TOTAL\<close>: its column \<open>Anomalie\<close> holds the
  string \<open>TOTAL\<close>, its two score columns the totals, its other columns the empty string.\<close>

datatype df_row =
    is_Row: Row (Anomalie: string) (Type: anomaly_type) (Explication: explication)
        (Occurrences: nat) (Clones: string)
        (Score_Jondreville_2020: nat) (Score_ISCN_2024: nat)
  | TOTAL (Score_Jondreville_2020: nat) (Score_ISCN_2024: nat)

text \<open>\<open>re.match(r"^\+\d+c$", norm)\<close>.\<close>

definition is_constitutional :: "string \<Rightarrow> bool" where
  "is_constitutional norm =
     (startswith norm ''+'' \<and> takeWhile is_digit (drop 1 norm) \<noteq> [] \<and>
      (let rest = dropWhile is_digit (drop 1 norm)
       in rest = ''c'' \<or> rest = ''c'' @ [newline]))"

text \<open>The four-way block that the source writes out twice, in its branches c and e.\<close>

definition standard_score :: "string \<Rightarrow> nat \<Rightarrow> nat \<times> explication" where
  "standard_score norm cnt_norm =
     (if is_single_chr_deseq norm cnt_norm then (2, Desequilibre_unichromosomique)
      else if is_complex_multichr_deseq norm then (2, Desequilibre_multichromosomique_complexe)
      else if is_unbalanced_translocation norm then (2, Translocation_desequilibree_2_points)
      else (1, Anomalie_standard))"

definition score_iscn :: "implicit_dict \<Rightarrow> string \<Rightarrow> nat \<Rightarrow> nat \<times> explication" where
  "score_iscn implicit_info norm cnt_norm =
     (if is_constitutional norm then (0, Anomalie_constitutionnelle)
      else (case map_of implicit_info norm of
              Some (r, ref) \<Rightarrow> (0, Implicite r ref)
            | None \<Rightarrow>
               if startswith norm ''+'' \<or> startswith norm ''-''
                 then standard_score norm cnt_norm
               else if startswith norm ''dic'' then (2, Chromosome_dicentrique_2_points)
               else standard_score norm cnt_norm))"

text \<open>The loop over \<open>counts.items()\<close>, with its three accumulators.\<close>

fun score_loop ::
  "(string \<times> nat) list \<Rightarrow> implicit_dict \<Rightarrow> (string \<times> string list) list
     \<Rightarrow> (string \<times> nat) list \<Rightarrow> df_row list \<times> nat \<times> nat \<Rightarrow> df_row list \<times> nat \<times> nat" where
  "score_loop norm_counts implicit_info cmap [] acc = acc"
| "score_loop norm_counts implicit_info cmap ((anom, cnt) # items) (rows, total_j, total_i) =
     (let score_j = 1;
          norm = normalize_anomaly anom;
          cnt_norm = counter_get norm_counts norm;
          (score_i, explication) = score_iscn implicit_info norm cnt_norm
      in score_loop norm_counts implicit_info cmap items
           (rows @ [Row anom (type_anomalie norm) explication cnt
                        (join_comma (case map_of cmap anom of None \<Rightarrow> [] | Some cs \<Rightarrow> cs))
                        score_j score_i],
            total_j + score_j, total_i + score_i))"

definition calcul_scores ::
  "string list \<Rightarrow> (string \<times> string list) list \<Rightarrow> py_error + (df_row list \<times> nat)" where
  "calcul_scores anoms cmap =
     (let counts = Counter anoms;
          norm_counts = Counter (map normalize_anomaly anoms)
      in case detect_implicit_anomalies anoms of
           Inl err \<Rightarrow> Inl err
         | Inr implicit_info \<Rightarrow>
            (case score_loop norm_counts implicit_info cmap counts ([], 0, 0) of
               (rows, total_j, total_i) \<Rightarrow> Inr (rows @ [TOTAL total_j total_i], total_i)))"

section \<open>Analysis of one formula\<close>

text \<open>The result is the triple of the source: the data frame or \<open>None\<close>, the total, the error
  message or \<open>None\<close>. \<open>except Exception\<close> turns an exception of the two calls into the
  second shape.\<close>

definition analyser_formule :: "string \<Rightarrow> df_row list option \<times> nat \<times> string option" where
  "analyser_formule formule =
     (case parse_caryotype formule of
        (anoms, cmap) \<Rightarrow>
          (case calcul_scores anoms cmap of
             Inl e \<Rightarrow> (None, 0, Some (''Erreur lors de l'analyse de la formule: '' @ error_text e))
           | Inr (df, total_i) \<Rightarrow> (Some df, total_i, None)))"

text \<open>The same call as a computation that returns or raises. The body of the \<open>try\<close> block
  is the two calls; the clause \<open>except Exception\<close> handles the exceptions that are instances
  of the class \<open>Exception\<close> and lets any other exception pass. \<open>mro\<close> lists the classes of
  an exception, from its own class up to \<open>object\<close>.\<close>

fun mro :: "py_error \<Rightarrow> string list" where
  "mro IndexError =
     [''IndexError'', ''LookupError'', ''Exception'', ''BaseException'', ''object'']"
| "mro (ValueError msg) = [''ValueError'', ''Exception'', ''BaseException'', ''object'']"
| "mro (UnboundLocalError v) =
     [''UnboundLocalError'', ''NameError'', ''Exception'', ''BaseException'', ''object'']"
| "mro (KeyError k) =
     [''KeyError'', ''LookupError'', ''Exception'', ''BaseException'', ''object'']"

definition isinstance :: "py_error \<Rightarrow> string \<Rightarrow> bool" where
  "isinstance e cls = (cls \<in> set (mro e))"

definition analyse_body :: "string \<Rightarrow> py_error + (df_row list \<times> nat)" where
  "analyse_body formule =
     (case parse_caryotype formule of (anoms, cmap) \<Rightarrow> calcul_scores anoms cmap)"

definition handle_analysis ::
  "py_error + (df_row list \<times> nat) \<Rightarrow> py_error + (df_row list option \<times> nat \<times> string option)" where
  "handle_analysis body =
     (case body of
        Inr (df, total_i) \<Rightarrow> Inr (Some df, total_i, None)
      | Inl e \<Rightarrow>
         if isinstance e ''Exception''
         then Inr (None, 0, Some (''Erreur lors de l'analyse de la formule: '' @ error_text e))
         else Inl e)"

definition analyser_formule_outcome ::
  "string \<Rightarrow> py_error + (df_row list option \<times> nat \<times> string option)" where
  "analyser_formule_outcome formule = handle_analysis (analyse_body formule)"

section \<open>Reading the result\<close>

text \<open>The data frame returned for a formula (empty when there is none), its score rows
  (all rows but the last, as the callers take them with \<open>df.iloc[:-1]\<close>), and the score row
  of a given anomaly.\<close>

definition data_frame :: "string \<Rightarrow> df_row list" where
  "data_frame formule = (case fst (analyser_formule formule) of None \<Rightarrow> [] | Some df \<Rightarrow> df)"

definition score_rows :: "string \<Rightarrow> df_row list" where
  "score_rows formule = butlast (data_frame formule)"

definition row_of :: "string \<Rightarrow> string \<Rightarrow> df_row option" where
  "row_of formule anom = find (\<lambda>r. Anomalie r = anom) (score_rows formule)"

text \<open>The distinct elements of a list in the order of their first occurrence.\<close>

definition first_occurrences :: "'a list \<Rightarrow> 'a list" where
  "first_occurrences xs = rev (remdups (rev xs))"

text \<open>Some opening parenthesis of the string is directly followed by a digit or a
  semicolon.\<close>

fun digit_after_paren :: "string \<Rightarrow> bool" where
  "digit_after_paren (c # d # cs) =
     ((c = CHR ''('' \<and> is_digit_or_semi d) \<or> digit_after_paren (d # cs))"
| "digit_after_paren _ = False"

text \<open>An invariant of the dictionaries of lists: every stored list is non-empty and drawn from
  the set \<open>S\<close>.\<close>

definition lists_in :: "'a set \<Rightarrow> ('k \<times> 'a list) list \<Rightarrow> bool" where
  "lists_in S m = (\<forall>vs \<in> set (map snd m). vs \<noteq> [] \<and> set vs \<subseteq> S)"

section \<open>Dictionaries and counters\<close>

lemma keys_counter_add:
  "map fst (counter_add k m) = (if k \<in> set (map fst m) then map fst m else map fst m @ [k])"
  by (induction m) force+

lemma Counter_snoc: "Counter (xs @ [x]) = counter_add x (Counter xs)"
  by (simp add: Counter_def)

lemma keys_Counter: "set (map fst (Counter xs)) = set xs"
proof (induction xs rule: rev_induct)
  case Nil
  show ?case by (simp add: Counter_def)
next
  case (snoc x xs)
  then show ?case by (auto simp: Counter_snoc keys_counter_add)
qed

lemma keys_setdefault:
  "map fst (setdefault k v m) = (if k \<in> set (map fst m) then map fst m else map fst m @ [k])"
  by (induction m) force+

lemma norm_to_orig_snoc:
  "norm_to_orig_of (anoms @ [a]) = setdefault (normalize_anomaly a) a (norm_to_orig_of anoms)"
  by (simp add: norm_to_orig_of_def)

lemma keys_norm_to_orig: "set (map fst (norm_to_orig_of anoms)) = normalize_anomaly ` set anoms"
proof (induction anoms rule: rev_induct)
  case Nil
  show ?case by (simp add: norm_to_orig_of_def)
next
  case (snoc a anoms)
  then show ?case by (auto simp: norm_to_orig_snoc keys_setdefault)
qed

lemma dict_get_key: "k \<in> set (map fst m) \<Longrightarrow> \<exists>v. dict_get m k = Inr v"
  by (cases "map_of m k") (auto simp: dict_get_def map_of_eq_None_iff)

lemma values_setdefault_append:
  "set (map snd (setdefault_append k v m))
     \<subseteq> insert [v] (set (map snd m) \<union> (\<lambda>ws. ws @ [v]) ` set (map snd m))"
proof (induction m)
  case Nil
  show ?case by simp
next
  case (Cons p m)
  obtain k' vs where p: "p = (k', vs)" by (cases p)
  show ?case
  proof (cases "k = k'")
    case True
    then show ?thesis using p by auto
  next
    case False
    then show ?thesis using p Cons by auto
  qed
qed

section \<open>The implicit detector raises no exception\<close>

lemma lists_in_Nil: "lists_in S []"
  by (simp add: lists_in_def)

lemma lists_in_setdefault_append:
  assumes "lists_in S m" and "v \<in> S"
  shows "lists_in S (setdefault_append k v m)"
  unfolding lists_in_def
proof
  fix vs assume "vs \<in> set (map snd (setdefault_append k v m))"
  with values_setdefault_append[of k v m]
  consider "vs = [v]" | "vs \<in> set (map snd m)"
    | ws where "ws \<in> set (map snd m)" "vs = ws @ [v]"
    by blast
  then show "vs \<noteq> [] \<and> set vs \<subseteq> S"
  proof cases
    case 1
    with assms show ?thesis by simp
  next
    case 2
    with assms show ?thesis unfolding lists_in_def by blast
  next
    case 3
    from 3(1) assms(1) have "set ws \<subseteq> S" unfolding lists_in_def by blast
    with 3(2) assms(2) show ?thesis by simp
  qed
qed

lemma lists_in_t_events: "lists_in (set norms) (t_events_of norms)"
proof -
  have "lists_in S (foldl (\<lambda>ev an. case derivative_event an of
                       None \<Rightarrow> ev
                     | Some (A, B) \<Rightarrow> setdefault_append (sorted_pair A B) an ev) ev0 ns)"
    if "lists_in S ev0" and "set ns \<subseteq> S" for S ev0 and ns :: "string list"
    using that
  proof (induction ns arbitrary: ev0)
    case Nil
    then show ?case by simp
  next
    case (Cons an ns)
    show ?case
    proof (cases "derivative_event an")
      case None
      with Cons show ?thesis by simp
    next
      case (Some p)
      obtain A B where "p = (A, B)" by (cases p)
      with Some Cons.prems have "lists_in S (setdefault_append (sorted_pair A B) an ev0)"
        by (simp add: lists_in_setdefault_append)
      with Cons.IH[of "setdefault_append (sorted_pair A B) an ev0"] Cons.prems Some \<open>p = (A, B)\<close>
      show ?thesis by simp
    qed
  qed
  from this[of "set norms" "[]" norms] show ?thesis
    by (simp add: t_events_of_def lists_in_Nil)
qed

lemma implicit_derivatives_total:
  "\<forall>ders \<in> set groups. set ders \<subseteq> set (map fst n2o) \<Longrightarrow>
     \<exists>imp. implicit_derivatives n2o groups implicit = Inr imp"
proof (induction groups arbitrary: implicit)
  case Nil
  show ?case by simp
next
  case (Cons ders groups)
  show ?case
  proof (cases "filter is_explicit ders")
    case Nil
    with Cons show ?thesis by simp
  next
    case ex: (Cons e0 es)
    then have "e0 \<in> set (filter is_explicit ders)" by simp
    then have "e0 \<in> set ders" by simp
    with Cons.prems have "e0 \<in> set (map fst n2o)" by auto
    from dict_get_key[OF this] obtain ref where "dict_get n2o e0 = Inr ref" ..
    then have "implicit_derivatives n2o (ders # groups) implicit =
        implicit_derivatives n2o groups
          (foldl (\<lambda>imp d. if d \<notin> set (e0 # es)
                           then dict_set d (Derive_implicite, ref) imp else imp) implicit ders)"
      by (simp add: ex)
    moreover from Cons.prems have "\<forall>ders \<in> set groups. set ders \<subseteq> set (map fst n2o)" by simp
    ultimately show ?thesis using Cons.IH by simp
  qed
qed

lemma lists_in_foldl_chrs:
  "lists_in S md \<Longrightarrow> an \<in> S \<Longrightarrow>
     lists_in S (foldl (\<lambda>md' c. setdefault_append c an md') md chrs)"
  by (induction chrs arbitrary: md) (simp_all add: lists_in_setdefault_append)

lemma lists_in_multi_der: "lists_in (set norms) (multi_der_of norms)"
proof -
  have "lists_in S (foldl (\<lambda>md an. case derivative_chrs an of
                       None \<Rightarrow> md
                     | Some chrs \<Rightarrow>
                        if length chrs > 1
                        then foldl (\<lambda>md' c. setdefault_append c an md') md chrs
                        else md) md0 ns)"
    if "lists_in S md0" and "set ns \<subseteq> S" for S md0 and ns :: "string list"
    using that
  proof (induction ns arbitrary: md0)
    case Nil
    then show ?case by simp
  next
    case (Cons an ns)
    show ?case
    proof (cases "derivative_chrs an")
      case None
      with Cons show ?thesis by simp
    next
      case (Some chrs)
      from Cons.prems have "lists_in S (foldl (\<lambda>md' c. setdefault_append c an md') md0 chrs)"
        by (simp add: lists_in_foldl_chrs)
      with Cons.IH Cons.prems Some show ?thesis by simp
    qed
  qed
  from this[of "set norms" "[]" norms] show ?thesis
    by (simp add: multi_der_of_def lists_in_Nil)
qed

lemma lists_in_lookup: "lists_in S m \<Longrightarrow> map_of m k = Some vs \<Longrightarrow> vs \<noteq> []"
  unfolding lists_in_def by (auto dest!: map_of_SomeD)

lemma implicit_gains_total:
  "lists_in S multi_der \<Longrightarrow> \<exists>imp. implicit_gains n2o multi_der ans implicit = Inr imp"
proof (induction ans arbitrary: implicit)
  case Nil
  show ?case by simp
next
  case (Cons an ans)
  show ?case
  proof (cases "map_of multi_der (filter is_digit an)")
    case None
    with Cons show ?thesis by simp
  next
    case (Some vs)
    with Cons.prems have "vs \<noteq> []" by (rule lists_in_lookup)
    then obtain r rs where "vs = r # rs" by (cases vs) auto
    then have "implicit_gains n2o multi_der (an # ans) implicit =
        (if startswith an ''+'' \<or> startswith an ''-'' then
           implicit_gains n2o multi_der ans
             (dict_set an (Gain_perte_implicite,
                 case map_of n2o r of None \<Rightarrow> r | Some orig \<Rightarrow> orig) implicit)
         else implicit_gains n2o multi_der ans implicit)"
      by (simp add: Some)
    with Cons.IH[OF Cons.prems] show ?thesis by simp
  qed
qed

lemma detect_implicit_anomalies_total: "\<exists>imp. detect_implicit_anomalies anoms = Inr imp"
proof -
  let ?norms = "map fst (Counter (map normalize_anomaly anoms))"
  have keys: "set ?norms = set (map fst (norm_to_orig_of anoms))"
    using keys_Counter[of "map normalize_anomaly anoms"] keys_norm_to_orig[of anoms] by simp
  have "\<forall>ders \<in> set (map snd (t_events_of ?norms)). set ders \<subseteq> set (map fst (norm_to_orig_of anoms))"
    using lists_in_t_events[of ?norms] unfolding lists_in_def keys by blast
  then obtain imp where
    "implicit_derivatives (norm_to_orig_of anoms) (map snd (t_events_of ?norms)) [] = Inr imp"
    using implicit_derivatives_total[of "map snd (t_events_of ?norms)" "norm_to_orig_of anoms" "[]"]
    by auto
  moreover obtain imp' where
    "implicit_gains (norm_to_orig_of anoms) (multi_der_of ?norms) ?norms imp = Inr imp'"
    using implicit_gains_total[OF lists_in_multi_der, of "norm_to_orig_of anoms" ?norms ?norms imp]
    by auto
  ultimately show ?thesis
    by (simp add: detect_implicit_anomalies_def Let_def)
qed

section \<open>The rows of the data frame\<close>

lemma first_occurrences_snoc:
  "first_occurrences (xs @ [x]) =
     (if x \<in> set xs then first_occurrences xs else first_occurrences xs @ [x])"
  by (simp add: first_occurrences_def)

lemma keys_Counter_order: "map fst (Counter xs) = first_occurrences xs"
proof (induction xs rule: rev_induct)
  case Nil
  show ?case by (simp add: Counter_def first_occurrences_def)
next
  case (snoc x xs)
  have "set (map fst (Counter xs)) = set xs" by (rule keys_Counter)
  with snoc show ?case
    by (simp only: Counter_snoc keys_counter_add first_occurrences_snoc)
qed

lemma map_of_counter_add:
  "map_of (counter_add x m) k =
     (if k = x then Some (case map_of m x of None \<Rightarrow> 1 | Some n \<Rightarrow> Suc n) else map_of m k)"
  by (induction m) auto

lemma map_of_Counter:
  "map_of (Counter xs) k = (if k \<in> set xs then Some (count_list xs k) else None)"
proof (induction xs arbitrary: k rule: rev_induct)
  case Nil
  show ?case by (simp add: Counter_def)
next
  case (snoc x xs)
  from snoc[of x] snoc[of k] show ?case
    by (simp add: Counter_snoc map_of_counter_add count_list_0_iff)
qed

lemma counter_get_Counter: "counter_get (Counter xs) k = count_list xs k"
  by (simp add: counter_get_def map_of_Counter count_list_0_iff)

lemma values_by_lookup:
  "distinct (map fst m) \<Longrightarrow> map snd m = map (\<lambda>k. the (map_of m k)) (map fst m)"
proof (induction m)
  case Nil
  show ?case by simp
next
  case (Cons p m)
  obtain k v where p: "p = (k, v)" by (cases p)
  from Cons.prems p have "k \<notin> set (map fst m)" and d: "distinct (map fst m)" by simp_all
  then have "map (\<lambda>k'. the (map_of (p # m) k')) (map fst m) = map (\<lambda>k'. the (map_of m k')) (map fst m)"
    using p by (intro map_cong) auto
  with Cons.IH[OF d] p show ?case by simp
qed

lemma distinct_first_occurrences: "distinct (first_occurrences xs)"
  by (simp add: first_occurrences_def)

lemma set_first_occurrences: "set (first_occurrences xs) = set xs"
  by (simp add: first_occurrences_def)

lemma values_Counter: "map snd (Counter xs) = map (count_list xs) (first_occurrences xs)"
proof -
  have "distinct (map fst (Counter xs))"
    by (simp add: keys_Counter_order distinct_first_occurrences)
  then have "map snd (Counter xs) = map (\<lambda>k. the (map_of (Counter xs) k)) (map fst (Counter xs))"
    by (rule values_by_lookup)
  also have "\<dots> = map (\<lambda>k. the (map_of (Counter xs) k)) (first_occurrences xs)"
    by (simp only: keys_Counter_order)
  also have "\<dots> = map (count_list xs) (first_occurrences xs)"
    by (rule map_cong) (simp_all add: map_of_Counter set_first_occurrences)
  finally show ?thesis .
qed

text \<open>The loop of calcul_scores adds one row per item and one point of the first convention.\<close>

lemma score_loop_rows:
  "map Anomalie (fst (score_loop nc imp cmap items (rows, tj, ti))) = map Anomalie rows @ map fst items
   \<and> map Occurrences (fst (score_loop nc imp cmap items (rows, tj, ti)))
       = map Occurrences rows @ map snd items
   \<and> map Type (fst (score_loop nc imp cmap items (rows, tj, ti)))
       = map Type rows @ map (type_anomalie \<circ> normalize_anomaly) (map fst items)
   \<and> map Score_Jondreville_2020 (fst (score_loop nc imp cmap items (rows, tj, ti)))
       = map Score_Jondreville_2020 rows @ replicate (length items) 1
   \<and> fst (snd (score_loop nc imp cmap items (rows, tj, ti))) = tj + length items"
proof (induction items arbitrary: rows tj ti)
  case Nil
  show ?case by simp
next
  case (Cons it items)
  obtain anom cnt where it: "it = (anom, cnt)" by (cases it)
  obtain s e where se: "score_iscn imp (normalize_anomaly anom)
      (counter_get nc (normalize_anomaly anom)) = (s, e)" by (cases "score_iscn imp (normalize_anomaly anom)
      (counter_get nc (normalize_anomaly anom))")
  show ?case
    unfolding it by (simp add: se Cons.IH)
qed

lemma calcul_scores_shape:
  "\<exists>imp res. detect_implicit_anomalies anoms = Inr imp
      \<and> res = score_loop (Counter (map normalize_anomaly anoms)) imp cmap (Counter anoms) ([], 0, 0)
      \<and> calcul_scores anoms cmap
          = Inr (fst res @ [TOTAL (fst (snd res)) (snd (snd res))], snd (snd res))"
proof -
  obtain imp where "detect_implicit_anomalies anoms = Inr imp"
    using detect_implicit_anomalies_total by blast
  then show ?thesis
    by (simp add: calcul_scores_def Let_def split: prod.splits)
qed

lemma data_frame_shape:
  "\<exists>nc imp cmap ti. data_frame formule =
      fst (score_loop nc imp cmap (Counter (fst (parse_caryotype formule))) ([], 0, 0))
      @ [TOTAL (fst (snd (score_loop nc imp cmap (Counter (fst (parse_caryotype formule))) ([], 0, 0)))) ti]"
proof -
  obtain anoms cmap where p: "parse_caryotype formule = (anoms, cmap)"
    by (cases "parse_caryotype formule")
  from calcul_scores_shape[of anoms cmap] obtain imp res where
    r: "res = score_loop (Counter (map normalize_anomaly anoms)) imp cmap (Counter anoms) ([], 0, 0)"
    and c: "calcul_scores anoms cmap
          = Inr (fst res @ [TOTAL (fst (snd res)) (snd (snd res))], snd (snd res))"
    by blast
  have "data_frame formule = fst res @ [TOTAL (fst (snd res)) (snd (snd res))]"
    by (simp add: data_frame_def analyser_formule_def p c)
  with r p show ?thesis by auto
qed

lemma data_frame_rows:
  "\<exists>tj ti. data_frame formule = score_rows formule @ [TOTAL tj ti]
     \<and> tj = length (score_rows formule)
     \<and> map Anomalie (score_rows formule) = first_occurrences (fst (parse_caryotype formule))
     \<and> map Occurrences (score_rows formule)
         = map (count_list (fst (parse_caryotype formule)))
               (first_occurrences (fst (parse_caryotype formule)))
     \<and> map Type (score_rows formule)
         = map (type_anomalie \<circ> normalize_anomaly)
               (first_occurrences (fst (parse_caryotype formule)))
     \<and> map Score_Jondreville_2020 (score_rows formule)
         = replicate (length (score_rows formule)) 1"
proof -
  let ?anoms = "fst (parse_caryotype formule)"
  from data_frame_shape[of formule] obtain nc imp cmap ti where
    df: "data_frame formule =
      fst (score_loop nc imp cmap (Counter ?anoms) ([], 0, 0))
      @ [TOTAL (fst (snd (score_loop nc imp cmap (Counter ?anoms) ([], 0, 0)))) ti]"
    by blast
  let ?res = "score_loop nc imp cmap (Counter ?anoms) ([], 0, 0)"
  have rows: "score_rows formule = fst ?res"
    by (simp add: score_rows_def df)
  have len: "length (fst ?res) = length (Counter ?anoms)"
    using score_loop_rows[of nc imp cmap "Counter ?anoms" "[]" 0 0]
    by (metis append_Nil length_map list.simps(8))
  from score_loop_rows[of nc imp cmap "Counter ?anoms" "[]" 0 0]
  show ?thesis
    unfolding rows by (simp add: df len keys_Counter_order values_Counter)
qed

section \<open>Types and chromosome references\<close>

lemma startswith_contains: "startswith a p \<Longrightarrow> contains a p"
  by (cases a) (auto elim: startswith.elims)

lemma startswith_dic: "startswith a ''dic'' \<Longrightarrow> \<exists>r. a = ''dic'' @ r"
  by (auto elim!: startswith.elims)
lemma startswith_idic: "startswith a ''idic'' \<Longrightarrow> \<exists>r. a = ''idic'' @ r"
  by (auto elim!: startswith.elims)
lemma startswith_ider: "startswith a ''ider'' \<Longrightarrow> \<exists>r. a = ''ider'' @ r"
  by (auto elim!: startswith.elims)

lemma type_dic_iff:
  "(type_anomalie a = Chromosome_dicentrique) =
     (startswith a ''dic'' \<and> card (get_chromosomes a) \<le> 1 \<and> \<not> contains a ''t(''
      \<and> \<not> contains a ''~'' \<and> \<not> contains a ''dmin'')"
proof
  assume t: "type_anomalie a = Chromosome_dicentrique"
  then have s: "startswith a ''dic''" and c: "\<not> is_complex_multichr_deseq a"
    and u: "\<not> is_unbalanced_translocation a" and p: "\<not> contains a ''~''"
    and d: "\<not> contains a ''dmin''"
    by (simp_all add: type_anomalie_def split: if_splits)
  from s c have "card (get_chromosomes a) \<le> 1"
    by (simp add: is_complex_multichr_deseq_def split: if_splits)
  moreover from s have "contains a ''dic''" by (rule startswith_contains)
  with u have "\<not> contains a ''t(''"
    by (simp add: is_unbalanced_translocation_def split: if_splits)
  ultimately show "startswith a ''dic'' \<and> card (get_chromosomes a) \<le> 1 \<and> \<not> contains a ''t(''
      \<and> \<not> contains a ''~'' \<and> \<not> contains a ''dmin''"
    using s p d by simp
next
  assume h: "startswith a ''dic'' \<and> card (get_chromosomes a) \<le> 1 \<and> \<not> contains a ''t(''
      \<and> \<not> contains a ''~'' \<and> \<not> contains a ''dmin''"
  then obtain r where a: "a = ''dic'' @ r" using startswith_dic by blast
  from h have c: "\<not> is_complex_multichr_deseq a" by (simp add: is_complex_multichr_deseq_def)
  from h have u: "\<not> is_unbalanced_translocation a" by (simp add: is_unbalanced_translocation_def)
  have b: "\<not> is_balanced_translocation a" "\<not> is_balanced_insertion a"
    by (simp_all add: a is_balanced_translocation_def is_balanced_insertion_def balanced_shape_def)
  from h have p: "\<not> contains a ''~''" "\<not> contains a ''dmin''" by simp_all
  show "type_anomalie a = Chromosome_dicentrique"
    unfolding type_anomalie_def using c u b p by (simp add: a)
qed

lemma type_iso_iff:
  assumes pre: "a = ''idic'' @ r \<or> a = ''ider'' @ r"
  shows "(\<not> is_complex_multichr_deseq a \<and> \<not> is_unbalanced_translocation a) =
     (\<not> contains a ''t('' \<and> \<not> (card (get_chromosomes a) > 1 \<and> contains a ''ins(''))"
proof -
  from pre have k: "contains a ''der'' \<or> contains a ''dic''" by auto
  from pre have b: "\<not> is_balanced_translocation a" "\<not> is_balanced_insertion a"
    by (auto simp: is_balanced_translocation_def is_balanced_insertion_def balanced_shape_def)
  from pre have s: "\<not> startswith a ''der''" "\<not> startswith a ''dic''" "\<not> startswith a ''r(''"
    by auto
  show ?thesis
    using k b s
    by (auto simp: is_complex_multichr_deseq_def is_unbalanced_translocation_def)
qed

lemma type_idic_iff:
  "(type_anomalie a = Isodicentric_chromosome) =
     (startswith a ''idic'' \<and> \<not> contains a ''t('' \<and> \<not> contains a ''~''
      \<and> \<not> contains a ''dmin'' \<and> \<not> (card (get_chromosomes a) > 1 \<and> contains a ''ins(''))"
proof
  assume t: "type_anomalie a = Isodicentric_chromosome"
  then have s: "startswith a ''idic''" and c: "\<not> is_complex_multichr_deseq a"
    and u: "\<not> is_unbalanced_translocation a" and p: "\<not> contains a ''~''"
    and d: "\<not> contains a ''dmin''"
    by (simp_all add: type_anomalie_def split: if_splits)
  from s obtain r where "a = ''idic'' @ r" using startswith_idic by blast
  from type_iso_iff[of a r] this c u s p d
  show "startswith a ''idic'' \<and> \<not> contains a ''t('' \<and> \<not> contains a ''~''
      \<and> \<not> contains a ''dmin'' \<and> \<not> (card (get_chromosomes a) > 1 \<and> contains a ''ins('')"
    by blast
next
  assume h: "startswith a ''idic'' \<and> \<not> contains a ''t('' \<and> \<not> contains a ''~''
      \<and> \<not> contains a ''dmin'' \<and> \<not> (card (get_chromosomes a) > 1 \<and> contains a ''ins('')"
  then obtain r where a: "a = ''idic'' @ r" using startswith_idic by blast
  from type_iso_iff[of a r] a h
  have c: "\<not> is_complex_multichr_deseq a" and u: "\<not> is_unbalanced_translocation a" by blast+
  have b: "\<not> is_balanced_translocation a" "\<not> is_balanced_insertion a"
    by (simp_all add: a is_balanced_translocation_def is_balanced_insertion_def balanced_shape_def)
  from h have p: "\<not> contains a ''~''" "\<not> contains a ''dmin''" by simp_all
  show "type_anomalie a = Isodicentric_chromosome"
    unfolding type_anomalie_def using c u b p by (simp add: a)
qed

lemma type_ider_iff:
  "(type_anomalie a = Isoderivative_chromosome) =
     (startswith a ''ider'' \<and> \<not> contains a ''t('' \<and> \<not> contains a ''~''
      \<and> \<not> contains a ''dmin'' \<and> \<not> (card (get_chromosomes a) > 1 \<and> contains a ''ins(''))"
proof
  assume t: "type_anomalie a = Isoderivative_chromosome"
  then have s: "startswith a ''ider''" and c: "\<not> is_complex_multichr_deseq a"
    and u: "\<not> is_unbalanced_translocation a" and p: "\<not> contains a ''~''"
    and d: "\<not> contains a ''dmin''"
    by (simp_all add: type_anomalie_def split: if_splits)
  from s obtain r where "a = ''ider'' @ r" using startswith_ider by blast
  from type_iso_iff[of a r] this c u s p d
  show "startswith a ''ider'' \<and> \<not> contains a ''t('' \<and> \<not> contains a ''~''
      \<and> \<not> contains a ''dmin'' \<and> \<not> (card (get_chromosomes a) > 1 \<and> contains a ''ins('')"
    by blast
next
  assume h: "startswith a ''ider'' \<and> \<not> contains a ''t('' \<and> \<not> contains a ''~''
      \<and> \<not> contains a ''dmin'' \<and> \<not> (card (get_chromosomes a) > 1 \<and> contains a ''ins('')"
  then obtain r where a: "a = ''ider'' @ r" using startswith_ider by blast
  from type_iso_iff[of a r] a h
  have c: "\<not> is_complex_multichr_deseq a" and u: "\<not> is_unbalanced_translocation a" by blast+
  have b: "\<not> is_balanced_translocation a" "\<not> is_balanced_insertion a"
    by (simp_all add: a is_balanced_translocation_def is_balanced_insertion_def balanced_shape_def)
  from h have p: "\<not> contains a ''~''" "\<not> contains a ''dmin''" by simp_all
  show "type_anomalie a = Isoderivative_chromosome"
    unfolding type_anomalie_def using c u b p by (simp add: a)
qed

lemma startswith_append: "startswith s p \<Longrightarrow> \<exists>r. s = p @ r"
  by (induction s p rule: startswith.induct) auto

lemma digit_after_paren_tail: "digit_after_paren cs \<Longrightarrow> digit_after_paren (c # cs)"
  by (cases cs) auto

lemma digit_after_paren_append:
  "is_digit_or_semi d \<Longrightarrow> digit_after_paren (k @ CHR ''('' # d # r)"
  by (induction k) (auto simp: digit_after_paren_tail)

lemma keyword_matches_paren: "keyword_matches s k \<Longrightarrow> digit_after_paren s"
proof -
  assume m: "keyword_matches s k"
  then obtain r where s: "s = (k @ ''('') @ r"
    unfolding keyword_matches_def using startswith_append by blast
  with m have "takeWhile is_digit_or_semi r \<noteq> []"
    by (simp add: keyword_matches_def keyword_group_def)
  then obtain d r' where "r = d # r'" "is_digit_or_semi d"
    by (cases r) (auto split: if_splits)
  with s show ?thesis by (simp add: digit_after_paren_append)
qed

lemma chromosome_match_None: "\<not> digit_after_paren s \<Longrightarrow> chromosome_match s = None"
proof -
  assume n: "\<not> digit_after_paren s"
  then have "find (keyword_matches s) chromosome_keywords = None"
    by (auto simp: find_None_iff dest: keyword_matches_paren)
  then show ?thesis by (simp add: chromosome_match_def)
qed

lemma finditer_no_match: "\<not> digit_after_paren s \<Longrightarrow> finditer chromosome_match s = []"
proof (induction s)
  case Nil
  show ?case by simp
next
  case (Cons c cs)
  from Cons.prems have "\<not> digit_after_paren cs" using digit_after_paren_tail by blast
  with Cons.IH have "finditer chromosome_match cs = []" by simp
  with chromosome_match_None[OF Cons.prems] show ?case by simp
qed

lemma no_chromosomes: "\<not> digit_after_paren a \<Longrightarrow> get_chromosomes a = {}"
  by (simp add: get_chromosomes_def chromosome_list_def finditer_no_match)

lemma normalize_keeps_no_digit:
  "\<not> digit_after_paren a \<Longrightarrow> \<not> digit_after_paren (normalize_anomaly a)"
  unfolding normalize_anomaly_def
  by (induction a) (auto dest: digit_after_paren_tail)

lemma not_complex_type: "\<not> is_complex_multichr_deseq a \<Longrightarrow>
   type_anomalie a \<noteq> Multichromosomique_desequilibree"
  by (simp add: type_anomalie_def)

lemma not_complex_score: "\<not> is_complex_multichr_deseq a \<Longrightarrow>
   snd (score_iscn implicit_info a cnt) \<noteq> Desequilibre_multichromosomique_complexe"
  by (simp add: score_iscn_def standard_score_def split: option.splits prod.splits)

section \<open>The claims\<close>

text \<open>
  Claim C1, as amended. For the formula
  \<open>46,XY,der(9)t(9;22)(q34;q11),add(9)(q34)/46,XY,der(9)t(9;22)(q34;q11)[cp5]\<close> the
  derivative repeated in the second clone is one row with two occurrences; it is not
  implicit, its ISCN 2024 score is 2 (complex multichromosomal imbalance) and its
  Jondreville 2020 score is 1. The separate token \<open>add(9)(q34)\<close> is no derivative of the
  translocation and so is no explicit reference. When the \<open>add\<close> is part of a derivative of
  the same translocation, as in \<open>der(9)t(9;22)(q34;q11)add(9)(q34)\<close>, the plain derivative of
  the second clone is an implicit derivative with that token as its reference: ISCN 2024
  score 0, Jondreville 2020 score 1.
\<close>

theorem derivative_beside_separate_add_scores_two:
  "analyser_formule
     ''46,XY,der(9)t(9;22)(q34;q11),add(9)(q34)/46,XY,der(9)t(9;22)(q34;q11)[cp5]'' =
   (Some [Row ''der(9)t(9;22)(q34;q11)'' Multichromosomique_desequilibree
            Desequilibre_multichromosomique_complexe 2 ''clone1, clone2'' 1 2,
          Row ''add(9)(q34)'' Autre Anomalie_standard 1 ''clone1'' 1 1,
          TOTAL 2 3], 3, None)
   \<and> analyser_formule
     ''46,XY,der(9)t(9;22)(q34;q11)add(9)(q34)/46,XY,der(9)t(9;22)(q34;q11)[cp5]'' =
   (Some [Row ''der(9)t(9;22)(q34;q11)add(9)(q34)'' Multichromosomique_desequilibree
            Desequilibre_multichromosomique_complexe 1 ''clone1'' 1 2,
          Row ''der(9)t(9;22)(q34;q11)'' Multichromosomique_desequilibree
            (Implicite Derive_implicite ''der(9)t(9;22)(q34;q11)add(9)(q34)'') 1
            ''clone2'' 1 0,
          TOTAL 2 2], 2, None)"
  by code_simp

text \<open>
  Claim C1 as stated fails: on that formula the row of the derivative has the ISCN 2024
  score 2, not 0, with the explanation of a complex multichromosomal imbalance, and the
  detector marks no anomaly as implicit.
\<close>

theorem derivative_beside_separate_add_not_implicit:
  "map_option Score_ISCN_2024
     (row_of ''46,XY,der(9)t(9;22)(q34;q11),add(9)(q34)/46,XY,der(9)t(9;22)(q34;q11)[cp5]''
        ''der(9)t(9;22)(q34;q11)'') = Some 2
   \<and> map_option Explication
     (row_of ''46,XY,der(9)t(9;22)(q34;q11),add(9)(q34)/46,XY,der(9)t(9;22)(q34;q11)[cp5]''
        ''der(9)t(9;22)(q34;q11)'') = Some Desequilibre_multichromosomique_complexe
   \<and> detect_implicit_anomalies
        [''der(9)t(9;22)(q34;q11)'', ''add(9)(q34)'', ''der(9)t(9;22)(q34;q11)''] = Inr []"
  by code_simp

text \<open>
  Claim C2 fails on the formula \<open>92,XXYY/47,XX,+8\<close>: the second clone has 47 chromosomes,
  yet the tokenizer emits \<open>Tetraploidy\<close> for it too, because the variable \<open>pl\<close> still holds
  the label assigned for the first clone. With the clones in the other order the clone of
  47 chromosomes gets no pseudo-anomaly.
\<close>

theorem stale_ploidy_label_reused:
  "parse_caryotype ''92,XXYY/47,XX,+8'' =
     ([''Tetraploidy'', ''Tetraploidy'', ''+8''],
      [(''Tetraploidy'', [''clone1'', ''clone2'']), (''+8'', [''clone2''])])
   \<and> parse_caryotype ''47,XX,+8/92,XXYY'' =
     ([''+8'', ''Tetraploidy''],
      [(''+8'', [''clone1'']), (''Tetraploidy'', [''clone2''])])"
  by code_simp

text \<open>
  Claim C3, as amended. For every formula there is one score row for every distinct raw
  anomaly token, in the order of first occurrence, so that raw forms with the same
  normalized form have rows of their own; the type of a row is that of the normalized
  token; the occurrences of a row are the number of positions of the anomaly list that
  hold its raw token.
\<close>

theorem rows_follow_raw_tokens:
  "map Anomalie (score_rows formule) = first_occurrences (fst (parse_caryotype formule))
   \<and> map Occurrences (score_rows formule)
         = map (count_list (fst (parse_caryotype formule)))
               (first_occurrences (fst (parse_caryotype formule)))
   \<and> map Type (score_rows formule)
         = map (type_anomalie \<circ> normalize_anomaly)
               (first_occurrences (fst (parse_caryotype formule)))"
  using data_frame_rows[of formule] by blast

text \<open>
  Claim C3 as stated fails: \<open>+8\<close> and \<open>?+8\<close> give two rows, and \<open>+8\<close> written twice in
  the only clone of a formula is reported with two occurrences.
\<close>

theorem raw_forms_not_aggregated:
  "map Anomalie (score_rows ''47,XX,+8/47,XX,?+8'') = [''+8'', ''?+8'']
   \<and> map Occurrences (score_rows ''47,XX,+8,+8'') = [2]
   \<and> parse_caryotype ''47,XX,+8,+8'' = ([''+8'', ''+8''], [(''+8'', [''clone1'', ''clone1''])])"
  by code_simp

text \<open>
  Claim C4, as amended. The three late rules of \<open>type_anomalie\<close> are reachable. The type is
  "Chromosome dicentrique" exactly for the tokens that start with \<open>dic\<close>, refer to at most
  one chromosome and contain none of \<open>t(\<close>, \<open>~\<close>, \<open>dmin\<close>. It is "Isodicentric chromosome"
  (and "Isoderivative chromosome") exactly for the tokens that start with \<open>idic\<close> (with
  \<open>ider\<close>), contain none of \<open>t(\<close>, \<open>~\<close>, \<open>dmin\<close> and do not both refer to several
  chromosomes and contain \<open>ins(\<close>.
\<close>

theorem late_type_rules_reachable:
  "((type_anomalie a = Chromosome_dicentrique) =
      (startswith a ''dic'' \<and> card (get_chromosomes a) \<le> 1 \<and> \<not> contains a ''t(''
       \<and> \<not> contains a ''~'' \<and> \<not> contains a ''dmin''))
   \<and> ((type_anomalie a = Isodicentric_chromosome) =
      (startswith a ''idic'' \<and> \<not> contains a ''t('' \<and> \<not> contains a ''~''
       \<and> \<not> contains a ''dmin''
       \<and> \<not> (card (get_chromosomes a) > 1 \<and> contains a ''ins('')))
   \<and> ((type_anomalie a = Isoderivative_chromosome) =
      (startswith a ''ider'' \<and> \<not> contains a ''t('' \<and> \<not> contains a ''~''
       \<and> \<not> contains a ''dmin''
       \<and> \<not> (card (get_chromosomes a) > 1 \<and> contains a ''ins('')))"
  using type_dic_iff[of a] type_idic_iff[of a] type_ider_iff[of a] by blast

text \<open>
  Claim C4 as stated fails: each of the three types is returned for a token.
\<close>

theorem late_type_rules_fire:
  "type_anomalie ''dic(9)'' = Chromosome_dicentrique
   \<and> type_anomalie ''idic(17)(p11)'' = Isodicentric_chromosome
   \<and> type_anomalie ''ider(9)(q10)'' = Isoderivative_chromosome"
  by code_simp

text \<open>
  Claim C5 fails on the formula \<open>46,XX,.\<close>: the field \<open>.\<close> passes the test for a non-empty
  field, which is made before the dots are removed, and the tokenizer emits the empty
  string as an anomaly; it gets a row of its own.
\<close>

theorem dot_field_gives_empty_token:
  "parse_caryotype ''46,XX,.'' = ([ [] ], [([], [''clone1''])])
   \<and> analyser_formule ''46,XX,.'' =
       (Some [Row [] Autre Anomalie_standard 1 ''clone1'' 1 1, TOTAL 1 1], 1, None)"
  by code_simp

text \<open>
  Claim C6. The token \<open>t(9;22)(q34;q11)\<close> alone has the type "Translocation equilibree" and
  the ISCN 2024 score 1; the token \<open>der(9)t(9;22)(q34;q11)\<close> alone has the type
  "Multichromosomique desequilibree" and the ISCN 2024 score 2.
\<close>

theorem balanced_and_derivative_alone:
  "type_anomalie ''t(9;22)(q34;q11)'' = Translocation_equilibree
   \<and> analyser_formule ''46,XY,t(9;22)(q34;q11)'' =
       (Some [Row ''t(9;22)(q34;q11)'' Translocation_equilibree Anomalie_standard 1
                ''clone1'' 1 1,
              TOTAL 1 1], 1, None)
   \<and> type_anomalie ''der(9)t(9;22)(q34;q11)'' = Multichromosomique_desequilibree
   \<and> analyser_formule ''46,XY,der(9)t(9;22)(q34;q11)'' =
       (Some [Row ''der(9)t(9;22)(q34;q11)'' Multichromosomique_desequilibree
                Desequilibre_multichromosomique_complexe 1 ''clone1'' 1 2,
              TOTAL 1 2], 2, None)"
  by code_simp

text \<open>
  Claim C7. For every formula the Jondreville 2020 total, held by the last row of the data
  frame, is the number of score rows: every score row has the Jondreville 2020 score 1, and
  there is one score row for every distinct anomaly string.
\<close>

theorem jondreville_total_is_row_count:
  "Score_Jondreville_2020 (last (data_frame formule)) = length (score_rows formule)
   \<and> map Score_Jondreville_2020 (score_rows formule) = replicate (length (score_rows formule)) 1
   \<and> length (score_rows formule) = length (first_occurrences (fst (parse_caryotype formule)))"
proof -
  from data_frame_rows[of formule] obtain tj ti where
    "data_frame formule = score_rows formule @ [TOTAL tj ti]"
    "tj = length (score_rows formule)"
    "map Anomalie (score_rows formule) = first_occurrences (fst (parse_caryotype formule))"
    "map Score_Jondreville_2020 (score_rows formule)
         = replicate (length (score_rows formule)) 1"
    by blast
  then show ?thesis by simp (metis length_map)
qed

lemma every_error_is_Exception: "isinstance e ''Exception''"
  by (cases e) (simp_all add: isinstance_def)

text \<open>
  Claim C8. For every string the call of \<open>analyser_formule\<close> returns and does not raise,
  and what it returns is tied to the body of its \<open>try\<close> block: the data frame and the total
  of the scoring with no error when the body returns, and no data frame, the total 0 and
  the message \<open>Erreur lors de l'analyse de la formule:\<close> followed by the text of the exception
  when the body raises. The handler does so for every outcome of the body, whatever the
  exception.
\<close>

theorem analyser_formule_catches_every_fault:
  "(\<exists>r. analyser_formule_outcome formule = Inr r \<and> r = analyser_formule formule
        \<and> (case analyse_body formule of
              Inr (df, total_i) \<Rightarrow> r = (Some df, total_i, None)
            | Inl e \<Rightarrow>
                r = (None, 0, Some (''Erreur lors de l'analyse de la formule: '' @ error_text e))))
   \<and> (\<exists>r. handle_analysis body = Inr r
        \<and> (case body of
              Inr (df, total_i) \<Rightarrow> r = (Some df, total_i, None)
            | Inl e \<Rightarrow>
                (\<exists>msg. r = (None, 0, Some msg) \<and> msg \<noteq> []
                   \<and> msg = ''Erreur lors de l'analyse de la formule: '' @ error_text e)))"
proof
  show "\<exists>r. analyser_formule_outcome formule = Inr r \<and> r = analyser_formule formule
        \<and> (case analyse_body formule of
              Inr (df, total_i) \<Rightarrow> r = (Some df, total_i, None)
            | Inl e \<Rightarrow>
                r = (None, 0, Some (''Erreur lors de l'analyse de la formule: '' @ error_text e)))"
  proof (cases "analyse_body formule")
    case (Inl e)
    then show ?thesis
      by (simp add: analyser_formule_outcome_def handle_analysis_def every_error_is_Exception
            analyser_formule_def analyse_body_def split: prod.splits)
  next
    case (Inr p)
    then show ?thesis
      by (cases p)
         (simp add: analyser_formule_outcome_def handle_analysis_def
            analyser_formule_def analyse_body_def split: prod.splits)
  qed
next
  show "\<exists>r. handle_analysis body = Inr r
        \<and> (case body of
              Inr (df, total_i) \<Rightarrow> r = (Some df, total_i, None)
            | Inl e \<Rightarrow>
                (\<exists>msg. r = (None, 0, Some msg) \<and> msg \<noteq> []
                   \<and> msg = ''Erreur lors de l'analyse de la formule: '' @ error_text e))"
  proof (cases body)
    case (Inl e)
    then show ?thesis
      by (simp add: handle_analysis_def every_error_is_Exception)
  next
    case (Inr p)
    then show ?thesis
      by (cases p) (simp add: handle_analysis_def)
  qed
qed

text \<open>
  Claim C8 at the formula \<open>47,XX,+8\<close>, whose analysis returns its data frame, and at two
  bodies that raise: the handler returns the error shape with the message of the
  exception.
\<close>

theorem analyser_formule_catches_every_fault_witness:
  "analyser_formule_outcome ''47,XX,+8'' =
     Inr (Some [Row ''+8'' (Gain_chr ''8'') Anomalie_standard 1 ''clone1'' 1 1, TOTAL 1 1],
          1, None)
   \<and> handle_analysis (Inl IndexError) =
       Inr (None, 0, Some ''Erreur lors de l'analyse de la formule: list index out of range'')
   \<and> handle_analysis (Inl (KeyError ''+8'')) =
       Inr (None, 0,
            Some (''Erreur lors de l'analyse de la formule: '' @ [single_quote] @ ''+8''
                    @ [single_quote]))"
proof -
  have a: "analyser_formule ''47,XX,+8'' =
     (Some [Row ''+8'' (Gain_chr ''8'') Anomalie_standard 1 ''clone1'' 1 1, TOTAL 1 1], 1, None)"
    by code_simp
  have k: "error_text (KeyError ''+8'') = [single_quote] @ ''+8'' @ [single_quote]"
    by code_simp
  from analyser_formule_catches_every_fault[of "''47,XX,+8''" "Inl IndexError"]
    analyser_formule_catches_every_fault[of "''47,XX,+8''" "Inl (KeyError ''+8'')"] a k
  show ?thesis by auto
qed

text \<open>
  Claim C9. For every string \<open>analyser_formule\<close> returns a data frame and no error: the
  exceptions of the ploidy detection are handled inside \<open>parse_caryotype\<close>, and the two
  lookups of \<open>detect_implicit_anomalies\<close> that could raise never do.
\<close>

theorem analyser_formule_never_errors:
  "\<exists>df total_i. analyser_formule formule = (Some df, total_i, None)"
proof -
  obtain anoms cmap where p: "parse_caryotype formule = (anoms, cmap)"
    by (cases "parse_caryotype formule")
  from calcul_scores_shape[of anoms cmap] obtain df total_i where
    "calcul_scores anoms cmap = Inr (df, total_i)" by blast
  with p show ?thesis by (simp add: analyser_formule_def)
qed

text \<open>
  Claim C10, as amended. For every anomaly token in which no opening parenthesis is
  directly followed by a digit or a semicolon (every chromosome list starts with a
  non-digit designator, as in \<open>t(X;1)(p22;q21)\<close> and \<open>der(X)t(X;8)(p11;q22)\<close>),
  \<open>get_chromosomes\<close> returns the empty set, for the token and for its normalized form; the
  token is not a complex multichromosomal imbalance, its type is not "Multichromosomique
  desequilibree" and its score never comes from the rule of the complex multichromosomal
  imbalance.
\<close>

theorem no_chromosomes_without_leading_digit:
  assumes "\<not> digit_after_paren a"
  shows "get_chromosomes a = {}
    \<and> \<not> is_complex_multichr_deseq a
    \<and> get_chromosomes (normalize_anomaly a) = {}
    \<and> type_anomalie (normalize_anomaly a) \<noteq> Multichromosomique_desequilibree
    \<and> snd (score_iscn implicit_info (normalize_anomaly a) cnt)
         \<noteq> Desequilibre_multichromosomique_complexe"
proof -
  from assms have n: "\<not> digit_after_paren (normalize_anomaly a)"
    by (rule normalize_keeps_no_digit)
  have c: "\<not> is_complex_multichr_deseq a"
    by (simp add: is_complex_multichr_deseq_def no_chromosomes[OF assms])
  have cn: "\<not> is_complex_multichr_deseq (normalize_anomaly a)"
    by (simp add: is_complex_multichr_deseq_def no_chromosomes[OF n])
  from c cn show ?thesis
    by (simp add: no_chromosomes[OF assms] no_chromosomes[OF n] not_complex_type not_complex_score)
qed

text \<open>
  Claim C10, as amended, at the two tokens of the claim: the hypothesis holds for both.
\<close>

theorem no_chromosomes_without_leading_digit_witness:
  "\<not> digit_after_paren ''t(X;1)(p22;q21)''
   \<and> get_chromosomes ''t(X;1)(p22;q21)'' = {}
   \<and> type_anomalie (normalize_anomaly ''t(X;1)(p22;q21)'') \<noteq> Multichromosomique_desequilibree
   \<and> \<not> digit_after_paren ''der(X)t(X;8)(p11;q22)''
   \<and> get_chromosomes ''der(X)t(X;8)(p11;q22)'' = {}"
proof -
  have h1: "\<not> digit_after_paren ''t(X;1)(p22;q21)''" by code_simp
  have h2: "\<not> digit_after_paren ''der(X)t(X;8)(p11;q22)''" by code_simp
  from no_chromosomes_without_leading_digit[OF h1] no_chromosomes_without_leading_digit[OF h2]
    h1 h2
  show ?thesis by blast
qed

text \<open>
  Claim C10 as stated fails: in \<open>t(1;X)(p22;q21)\<close> the chromosome list holds the non-digit
  designator \<open>X\<close>, yet \<open>get_chromosomes\<close> returns the two strings \<open>1\<close> and the empty string,
  and the token is scored 2 by the rule of the complex multichromosomal imbalance.
\<close>

theorem digit_before_designator_is_extracted:
  "get_chromosomes ''t(1;X)(p22;q21)'' = {''1'', []}
   \<and> is_complex_multichr_deseq ''t(1;X)(p22;q21)''
   \<and> type_anomalie ''t(1;X)(p22;q21)'' = Multichromosomique_desequilibree
   \<and> score_iscn [] ''t(1;X)(p22;q21)'' 1 = (2, Desequilibre_multichromosomique_complexe)"
  by code_simp

end
